theory Spec2Isabelle
  imports Main "HOL-Library.AList" "HOL-Library.Multiset"
begin

section \<open>Data model (shared/schema.ts)\<close>

datatype role = VILLAGER | DOCTOR | DETECTIVE | MAFIA

datatype phase = LOBBY | DAY | NIGHT | VOTING | ENDED

datatype player_status = ALIVE | ELIMINATED | SPECTATOR

text \<open>
  A row of the \<open>players\<close> table. Nullable columns are options; \<open>id\<close> and \<open>name\<close>
  carry a suffix because the game row has columns of the same name. The column
  \<open>joinedAt\<close> is read by no route and is left out.
\<close>

record player =
  id_p :: string
  gameId :: string
  name_p :: string
  role :: "role option"
  status :: player_status
  isReady :: bool
  isHost :: bool
  votes :: int
  votedFor :: "string option"
  lastAction :: "string option"
  actionTarget :: "string option"

text \<open>
  A row of the \<open>games\<close> table. Timestamps are natural numbers (milliseconds);
  \<open>roleDistribution\<close> is a JSON object, kept as the list of its entries in iteration
  order. \<open>createdAt\<close> is never written after creation and is left out.
\<close>

record game =
  id_g :: string
  roomCode :: "string option"
  name_g :: string
  hostId :: string
  maxPlayers :: int
  currentPhase :: phase
  dayNumber :: int
  timeRemaining :: "int option"
  isActive :: bool
  geminiApiKey :: "string option"
  narrative :: "string option"
  gameLog :: "string list option"
  roleDistribution :: "(role \<times> int) list option"
  updatedAt :: nat

text \<open>JavaScript truthiness of a nullable string: \<open>null\<close> and the empty string are falsy.\<close>

fun truthy :: "string option \<Rightarrow> bool" where
  "truthy None = False"
| "truthy (Some s) = (s \<noteq> [])"

section \<open>server/services/gameLogic.ts\<close>

record RoleAssignment =
  playerId :: string
  role_a :: role

text \<open>
  The Fisher-Yates loop \<open>for (i = length - 1; i > 0; i--)\<close>. The draw
  \<open>Math.floor(Math.random() * (i + 1))\<close> is an integer in \<open>0..i\<close>; the random source
  is a parameter \<open>rnd\<close>, read at the loop index and reduced into that range.
\<close>

fun shuffleLoop :: "(nat \<Rightarrow> nat) \<Rightarrow> nat \<Rightarrow> 'a list \<Rightarrow> 'a list" where
  "shuffleLoop rnd 0 xs = xs"
| "shuffleLoop rnd (Suc i) xs =
     (let j = rnd (Suc i) mod (Suc i + 1)
      in shuffleLoop rnd i (xs[Suc i := xs ! j, j := xs ! Suc i]))"

definition shuffle :: "(nat \<Rightarrow> nat) \<Rightarrow> 'a list \<Rightarrow> 'a list" where
  "shuffle rnd xs = shuffleLoop rnd (length xs - 1) xs"

text \<open>
  The inner loop \<open>for (i = 0; i < count; i++)\<close> on the state
  (\<open>playerIndex\<close>, \<open>assignments\<close>), and the outer loop over \<open>Object.entries\<close>.
\<close>

fun assignSlots :: "player list \<Rightarrow> role \<Rightarrow> nat \<Rightarrow> nat \<times> RoleAssignment list
    \<Rightarrow> nat \<times> RoleAssignment list" where
  "assignSlots ps r 0 s = s"
| "assignSlots ps r (Suc n) (playerIndex, assignments) =
     assignSlots ps r n
       (if playerIndex < length ps
        then (playerIndex + 1,
              assignments @ [\<lparr>playerId = id_p (ps ! playerIndex), role_a = r\<rparr>])
        else (playerIndex, assignments))"

fun assignEntries :: "player list \<Rightarrow> (role \<times> int) list \<Rightarrow> nat \<times> RoleAssignment list
    \<Rightarrow> nat \<times> RoleAssignment list" where
  "assignEntries ps [] s = s"
| "assignEntries ps ((r, cnt) # rest) s =
     assignEntries ps rest (assignSlots ps r (nat cnt) s)"

definition assignRoles :: "(nat \<Rightarrow> nat) \<Rightarrow> player list \<Rightarrow> (role \<times> int) list
    \<Rightarrow> RoleAssignment list" where
  "assignRoles rnd players roleDist =
     snd (assignEntries (shuffle rnd players) roleDist (0, []))"

definition calculateRoleDistribution :: "int \<Rightarrow> (role \<times> int) list" where
  "calculateRoleDistribution playerCount =
     (let mafiaCount = playerCount div 3;
          doctorCount = 1;
          detectiveCount = 1;
          villagerCount = playerCount - mafiaCount - doctorCount - detectiveCount
      in [(VILLAGER, max 1 villagerCount),
          (DOCTOR, doctorCount),
          (DETECTIVE, detectiveCount),
          (MAFIA, max 1 mafiaCount)])"

datatype winner = WIN_VILLAGERS | WIN_MAFIA

fun winnerName :: "winner \<Rightarrow> string" where
  "winnerName WIN_VILLAGERS = ''VILLAGERS''"
| "winnerName WIN_MAFIA = ''MAFIA''"

definition alivePlayersOf :: "player list \<Rightarrow> player list" where
  "alivePlayersOf players = filter (\<lambda>p. status p = ALIVE) players"

definition aliveMafia :: "player list \<Rightarrow> player list" where
  "aliveMafia players = filter (\<lambda>p. role p = Some MAFIA) (alivePlayersOf players)"

definition aliveVillagers :: "player list \<Rightarrow> player list" where
  "aliveVillagers players = filter (\<lambda>p. role p \<noteq> Some MAFIA) (alivePlayersOf players)"

definition checkWinCondition :: "player list \<Rightarrow> winner option" where
  "checkWinCondition players =
     (if length (aliveMafia players) = 0 then Some WIN_VILLAGERS
      else if length (aliveMafia players) \<ge> length (aliveVillagers players) then Some WIN_MAFIA
      else None)"

text \<open>\<open>players.filter(p => p.lastAction && p.actionTarget)\<close>\<close>

definition actionsOf :: "player list \<Rightarrow> player list" where
  "actionsOf players = filter (\<lambda>p. truthy (lastAction p) \<and> truthy (actionTarget p)) players"

text \<open>
  The three \<open>forEach\<close> passes of \<open>processNightActions\<close>, each with its callback.
  The first one threads the protected set \<open>saves\<close> and the event list; the other two
  only append events.
\<close>

definition doctorStep :: "string option set \<times> string list \<Rightarrow> player
    \<Rightarrow> string option set \<times> string list" where
  "doctorStep s doctor =
     (case s of (saves, events) \<Rightarrow>
        if truthy (actionTarget doctor)
        then (insert (actionTarget doctor) saves,
              events @ [''The doctor protected someone from harm.''])
        else (saves, events))"

definition doctorPass :: "player list \<Rightarrow> string option set \<times> string list" where
  "doctorPass acts =
     foldl doctorStep ({}, [])
       (filter (\<lambda>p. role p = Some DOCTOR \<and> lastAction p = Some ''HEAL'') acts)"

definition mafiaStep :: "string option set \<Rightarrow> string list \<Rightarrow> player \<Rightarrow> string list" where
  "mafiaStep saves events mafia =
     (if truthy (actionTarget mafia) \<and> actionTarget mafia \<notin> saves
      then events @ [''A villager was found eliminated at dawn.'']
      else if truthy (actionTarget mafia) \<and> actionTarget mafia \<in> saves
      then events @ [''Someone was attacked but miraculously survived.'']
      else events)"

definition mafiaPass :: "string option set \<Rightarrow> player list \<Rightarrow> string list \<Rightarrow> string list" where
  "mafiaPass saves acts events0 =
     foldl (mafiaStep saves) events0
       (filter (\<lambda>p. role p = Some MAFIA \<and> lastAction p = Some ''KILL'') acts)"

definition detectiveStep :: "string list \<Rightarrow> player \<Rightarrow> string list" where
  "detectiveStep events detective =
     (if truthy (actionTarget detective)
      then events @ [''The detective gathered crucial information.'']
      else events)"

definition detectivePass :: "player list \<Rightarrow> string list \<Rightarrow> string list" where
  "detectivePass acts events0 =
     foldl detectiveStep events0
       (filter (\<lambda>p. role p = Some DETECTIVE \<and> lastAction p = Some ''INVESTIGATE'') acts)"

definition processNightActions :: "player list \<Rightarrow> string list" where
  "processNightActions players =
     (let acts = actionsOf players;
          (saves, events) = doctorPass acts
      in detectivePass acts (mafiaPass saves acts events))"

text \<open>The \<open>phase\<close> argument of \<open>getValidTargets\<close> is a plain string in the source.\<close>

definition getValidTargets :: "player \<Rightarrow> player list \<Rightarrow> string \<Rightarrow> player list" where
  "getValidTargets player allPlayers phase =
     (let alivePlayers = filter (\<lambda>p. status p = ALIVE \<and> id_p p \<noteq> id_p player) allPlayers
      in case role player of
           Some DOCTOR \<Rightarrow> if phase = ''NIGHT'' then alivePlayers else []
         | Some DETECTIVE \<Rightarrow> if phase = ''NIGHT'' then alivePlayers else []
         | Some MAFIA \<Rightarrow>
             if phase = ''NIGHT'' then filter (\<lambda>p. role p \<noteq> Some MAFIA) alivePlayers else []
         | _ \<Rightarrow> if phase = ''VOTING'' then alivePlayers else [])"

section \<open>server/storage.ts\<close>

text \<open>
  The record store: the rows of the two tables, in a fixed order. An update is a partial
  merge, given as a function on the row; \<open>updateGame\<close> also refreshes \<open>updatedAt\<close>.
  Storage failures (the routes answer them with status 500) are not modelled.
\<close>

record store =
  games :: "game list"
  players :: "player list"

definition getGame :: "store \<Rightarrow> string \<Rightarrow> game option" where
  "getGame st gid = find (\<lambda>g. id_g g = gid) (games st)"

definition getPlayer :: "store \<Rightarrow> string \<Rightarrow> player option" where
  "getPlayer st pid = find (\<lambda>p. id_p p = pid) (players st)"

definition getPlayersByGame :: "store \<Rightarrow> string \<Rightarrow> player list" where
  "getPlayersByGame st gid = filter (\<lambda>p. gameId p = gid) (players st)"

definition updatePlayer :: "store \<Rightarrow> string \<Rightarrow> (player \<Rightarrow> player) \<Rightarrow> store" where
  "updatePlayer st pid upd =
     st\<lparr>players := map (\<lambda>p. if id_p p = pid then upd p else p) (players st)\<rparr>"

definition updateGame :: "nat \<Rightarrow> store \<Rightarrow> string \<Rightarrow> (game \<Rightarrow> game) \<Rightarrow> store" where
  "updateGame t st gid upd =
     st\<lparr>games := map (\<lambda>g. if id_g g = gid then (upd g)\<lparr>updatedAt := t\<rparr> else g) (games st)\<rparr>"

section \<open>server/routes.ts\<close>

text \<open>
  A response is either an error (HTTP status and message) or the JSON body of a
  success. Every route returns its response together with the store it leaves behind.
  What the routes get from outside is collected in \<open>env\<close>: the clock read by
  \<open>updateGame\<close>, the random draws of the shuffle, and the two calls to the text
  service, which yield \<open>None\<close> when the call throws.
\<close>

datatype http_error = HttpError nat string

record env =
  now :: nat
  draws :: "nat \<Rightarrow> nat"
  generateNarrative :: "phase \<Rightarrow> int \<Rightarrow> nat \<Rightarrow> string list \<Rightarrow> string \<Rightarrow> string option"
  generateGameSummary :: "winner \<Rightarrow> player list \<Rightarrow> string list \<Rightarrow> string \<Rightarrow> string option"

text \<open>Decimal rendering of numbers inside template strings.\<close>

fun showNat :: "nat \<Rightarrow> string" where
  "showNat n =
     (if n < 10 then [''0123456789'' ! n]
      else showNat (n div 10) @ [''0123456789'' ! (n mod 10)])"

declare showNat.simps [simp del]

definition showInt :: "int \<Rightarrow> string" where
  "showInt i = (if i < 0 then ''-'' @ showNat (nat (- i)) else showNat (nat i))"

subsection \<open>POST /api/games/:gameId/start\<close>

definition startGame :: "env \<Rightarrow> store \<Rightarrow> string \<Rightarrow> (http_error + game option) \<times> store" where
  "startGame e st gid =
     (case getGame st gid of
        None \<Rightarrow> (Inl (HttpError 404 ''Game not found''), st)
      | Some game \<Rightarrow>
          let ps = getPlayersByGame st gid in
          if length ps < 4 then (Inl (HttpError 400 ''Need at least 4 players to start''), st)
          else if \<not> list_all isReady ps
          then (Inl (HttpError 400 ''All players must be ready''), st)
          else
            let rolesAssigned =
                  assignRoles (draws e) ps
                    (case roleDistribution game of
                       Some d \<Rightarrow> d
                     | None \<Rightarrow> calculateRoleDistribution (int (length ps)));
                st1 = foldl (\<lambda>s a. updatePlayer s (playerId a) (\<lambda>p. p\<lparr>role := Some (role_a a)\<rparr>))
                        st rolesAssigned;
                narrative0 = ''The game begins in the mysterious village of Shadowbrook. As night falls, an ominous feeling settles over the residents...'';
                narrative1 =
                  (case geminiApiKey game of
                     None \<Rightarrow> narrative0
                   | Some k \<Rightarrow>
                       if k = [] then narrative0
                       else (case generateNarrative e DAY 1 (length ps) [] k of
                               Some n \<Rightarrow> n
                             | None \<Rightarrow> narrative0));
                st2 = updateGame (now e) st1 gid
                        (\<lambda>g. g\<lparr>currentPhase := DAY,
                               narrative := Some narrative1,
                               timeRemaining := Some 300,
                               gameLog := Some [''Game started with '' @ showNat (length ps) @ '' players'',
                                                narrative1]\<rparr>)
            in (Inr (getGame st2 gid), st2))"

subsection \<open>POST /api/games/:gameId/next-phase\<close>

text \<open>
  The \<open>Map\<close> of vote counts keeps insertion order: \<open>set\<close> on a present key
  replaces the value in place, on a new key appends. That is \<open>AList.update\<close>.
\<close>

definition tallyVotes :: "player list \<Rightarrow> (string \<times> int) list" where
  "tallyVotes alivePlayers =
     foldl (\<lambda>voteCounts player.
              case votedFor player of
                None \<Rightarrow> voteCounts
              | Some t \<Rightarrow>
                  if t = [] then voteCounts
                  else AList.update t
                         ((case map_of voteCounts t of Some n \<Rightarrow> n | None \<Rightarrow> 0) + 1) voteCounts)
           [] alivePlayers"

text \<open>The search for the player with most votes, on the state (\<open>eliminatedPlayer\<close>, \<open>maxVotes\<close>).\<close>

definition mostVotes :: "player list \<Rightarrow> (string \<times> int) list \<Rightarrow> player option \<times> int" where
  "mostVotes ps voteCounts =
     foldl (\<lambda>(eliminatedPlayer, maxVotes) (pid, n).
              if n > maxVotes then (find (\<lambda>p. id_p p = pid) ps, n)
              else (eliminatedPlayer, maxVotes))
           (None, 0) voteCounts"

definition tabulate :: "player list \<Rightarrow> player option" where
  "tabulate ps = fst (mostVotes ps (tallyVotes (filter (\<lambda>p. status p = ALIVE) ps)))"

type_synonym phase_result = "store \<times> phase \<times> int \<times> string list \<times> string option"

definition votingCase :: "env \<Rightarrow> store \<Rightarrow> string \<Rightarrow> game \<Rightarrow> player list \<Rightarrow> string list
    \<Rightarrow> phase_result" where
  "votingCase e st gid g ps newLog =
     (let alivePlayers = filter (\<lambda>p. status p = ALIVE) ps;
          (st1, newLog1) =
            (case tabulate ps of
               Some eliminatedPlayer \<Rightarrow>
                 (updatePlayer st (id_p eliminatedPlayer) (\<lambda>p. p\<lparr>status := ELIMINATED\<rparr>),
                  newLog @ [name_p eliminatedPlayer @ '' was eliminated by vote''])
             | None \<Rightarrow> (st, newLog @ [''No one was eliminated (tie vote)'']));
          st2 = foldl (\<lambda>s pl. updatePlayer s (id_p pl) (\<lambda>p. p\<lparr>votes := 0, votedFor := None\<rparr>))
                  st1 alivePlayers;
          updatedPlayers = getPlayersByGame st2 gid
      in case checkWinCondition updatedPlayers of
           Some w \<Rightarrow>
             (let newLog2 = newLog1 @ [''Game ended - '' @ winnerName w @ '' wins!''];
                  narrative1 =
                    (case geminiApiKey g of
                       None \<Rightarrow> narrative g
                     | Some k \<Rightarrow>
                         if k = [] then narrative g
                         else (case generateGameSummary e w updatedPlayers newLog2 k of
                                 Some summary \<Rightarrow> Some summary
                               | None \<Rightarrow> narrative g))
              in (st2, ENDED, dayNumber g, newLog2, narrative1))
         | None \<Rightarrow> (st2, NIGHT, dayNumber g, newLog1, narrative g))"

definition mafiaActions :: "player list \<Rightarrow> player list" where
  "mafiaActions ps = filter (\<lambda>p. role p = Some MAFIA \<and> lastAction p = Some ''KILL'') ps"

definition doctorSaves :: "player list \<Rightarrow> string option set" where
  "doctorSaves ps =
     set (filter truthy
            (map actionTarget
               (filter (\<lambda>p. role p = Some DOCTOR \<and> lastAction p = Some ''HEAL'') ps)))"

text \<open>One iteration of \<open>for (const mafia of mafiaActions)\<close>, on the store and the log.\<close>

definition nightKill :: "player list \<Rightarrow> string option set \<Rightarrow> store \<times> string list \<Rightarrow> player
    \<Rightarrow> store \<times> string list" where
  "nightKill ps saves s mafia =
     (case s of (st, newLog) \<Rightarrow>
        (case actionTarget mafia of
           None \<Rightarrow> (st, newLog)
         | Some t \<Rightarrow>
             if t \<noteq> [] \<and> Some t \<notin> saves
             then (updatePlayer st t (\<lambda>p. p\<lparr>status := ELIMINATED\<rparr>),
                   (case find (\<lambda>p. id_p p = t) ps of
                      Some target \<Rightarrow> newLog @ [name_p target @ '' was eliminated during the night'']
                    | None \<Rightarrow> newLog))
             else (st, newLog)))"

text \<open>"Apply night action effects": the loop over \<open>mafiaActions\<close> with the set \<open>doctorSaves\<close>.\<close>

definition applyNightKills :: "player list \<Rightarrow> store \<times> string list \<Rightarrow> store \<times> string list" where
  "applyNightKills ps s = foldl (nightKill ps (doctorSaves ps)) s (mafiaActions ps)"

text \<open>"Clear night actions": every player of the session loses action and target.\<close>

definition clearNightActions :: "store \<Rightarrow> player list \<Rightarrow> store" where
  "clearNightActions st ps =
     foldl (\<lambda>s pl. updatePlayer s (id_p pl) (\<lambda>p. p\<lparr>lastAction := None, actionTarget := None\<rparr>))
       st ps"

definition nightCase :: "store \<Rightarrow> string \<Rightarrow> game \<Rightarrow> player list \<Rightarrow> string list \<Rightarrow> phase_result" where
  "nightCase st gid g ps newLog =
     (let nightEvents = processNightActions ps;
          (st1, newLog1) = applyNightKills ps (st, newLog @ nightEvents);
          st2 = clearNightActions st1 ps;
          playersAfterNight = getPlayersByGame st2 gid
      in case checkWinCondition playersAfterNight of
           Some w \<Rightarrow>
             (st2, ENDED, dayNumber g,
              newLog1 @ [''Game ended - '' @ winnerName w @ '' wins!''], narrative g)
         | None \<Rightarrow> (st2, DAY, dayNumber g + 1, newLog1, narrative g))"

text \<open>
  The \<open>switch\<close> has the cases DAY, VOTING and NIGHT and no default: in LOBBY and ENDED
  the four locals keep the values they were initialised with.
\<close>

definition nextPhase :: "env \<Rightarrow> store \<Rightarrow> string \<Rightarrow> (http_error + game option) \<times> store" where
  "nextPhase e st gid =
     (case getGame st gid of
        None \<Rightarrow> (Inl (HttpError 404 ''Game not found''), st)
      | Some g \<Rightarrow>
          let ps = getPlayersByGame st gid;
              newLog0 = (case gameLog g of Some l \<Rightarrow> l | None \<Rightarrow> []);
              (st1, newPhase, newDayNumber, newLog, narrative1) =
                (case currentPhase g of
                   DAY \<Rightarrow>
                     (st, VOTING, dayNumber g,
                      newLog0 @ [''Day '' @ showInt (dayNumber g) @ '' voting phase begins''],
                      narrative g)
                 | VOTING \<Rightarrow> votingCase e st gid g ps newLog0
                 | NIGHT \<Rightarrow> nightCase st gid g ps newLog0
                 | _ \<Rightarrow> (st, currentPhase g, dayNumber g, newLog0, narrative g));
              narrative2 =
                (case geminiApiKey g of
                   None \<Rightarrow> narrative1
                 | Some k \<Rightarrow>
                     if k \<noteq> [] \<and> newPhase \<noteq> ENDED
                     then (case generateNarrative e newPhase newDayNumber
                                  (length (filter (\<lambda>p. status p = ALIVE) ps))
                                  (drop (length newLog - 3) newLog) k of
                             Some n \<Rightarrow> Some n
                           | None \<Rightarrow> narrative1)
                     else narrative1);
              st2 = updateGame (now e) st1 gid
                      (\<lambda>u. u\<lparr>currentPhase := newPhase,
                             dayNumber := newDayNumber,
                             gameLog := Some newLog,
                             narrative := narrative2,
                             timeRemaining := Some (if newPhase = ENDED then 0 else 300)\<rparr>)
          in (Inr (getGame st2 gid), st2))"

subsection \<open>POST /api/games/:gameId/vote\<close>

text \<open>The two counter updates of the route: "Remove previous vote" and "Increment target's vote count".\<close>

definition removePreviousVote :: "store \<Rightarrow> player \<Rightarrow> store" where
  "removePreviousVote st voter =
     (case votedFor voter of
        None \<Rightarrow> st
      | Some prev \<Rightarrow>
          if prev = [] then st
          else (case getPlayer st prev of
                  None \<Rightarrow> st
                | Some previousTarget \<Rightarrow>
                    updatePlayer st prev
                      (\<lambda>p. p\<lparr>votes := max 0 (votes previousTarget - 1)\<rparr>)))"

definition incrementVoteCount :: "store \<Rightarrow> string option \<Rightarrow> store" where
  "incrementVoteCount st targetId =
     (case targetId of
        None \<Rightarrow> st
      | Some t \<Rightarrow>
          if t = [] then st
          else (case getPlayer st t of
                  None \<Rightarrow> st
                | Some target \<Rightarrow> updatePlayer st t (\<lambda>p. p\<lparr>votes := votes target + 1\<rparr>)))"

definition castVote :: "store \<Rightarrow> string \<Rightarrow> string \<Rightarrow> string option \<Rightarrow> (http_error + unit) \<times> store" where
  "castVote st gid pid targetId =
     (case getGame st gid of
        None \<Rightarrow> (Inl (HttpError 400 ''Voting not allowed at this time''), st)
      | Some g \<Rightarrow>
          if currentPhase g \<noteq> VOTING
          then (Inl (HttpError 400 ''Voting not allowed at this time''), st)
          else
            (case getPlayer st pid of
               None \<Rightarrow> (Inl (HttpError 400 ''Player cannot vote''), st)
             | Some voter \<Rightarrow>
                 if status voter \<noteq> ALIVE then (Inl (HttpError 400 ''Player cannot vote''), st)
                 else
                   let st1 = removePreviousVote st voter;
                       st2 = updatePlayer st1 pid (\<lambda>p. p\<lparr>votedFor := targetId\<rparr>);
                       st3 = incrementVoteCount st2 targetId
                   in (Inr (), st3)))"

text \<open>A sequence of vote requests (session, voter, target), served one after the other.\<close>

fun castVotes :: "store \<Rightarrow> (string \<times> string \<times> string option) list \<Rightarrow> store" where
  "castVotes st [] = st"
| "castVotes st ((gid, pid, targetId) # reqs) =
     castVotes (snd (castVote st gid pid targetId)) reqs"

subsection \<open>POST /api/games/:gameId/action\<close>

fun validActions :: "role option \<Rightarrow> string list option" where
  "validActions (Some DOCTOR) = Some [''HEAL'']"
| "validActions (Some DETECTIVE) = Some [''INVESTIGATE'']"
| "validActions (Some MAFIA) = Some [''KILL'']"
| "validActions _ = None"

definition takeAction :: "store \<Rightarrow> string \<Rightarrow> string \<Rightarrow> string \<Rightarrow> string option
    \<Rightarrow> (http_error + unit) \<times> store" where
  "takeAction st gid pid action targetId =
     (case getGame st gid of
        None \<Rightarrow> (Inl (HttpError 400 ''Actions not allowed at this time''), st)
      | Some g \<Rightarrow>
          if currentPhase g \<noteq> NIGHT
          then (Inl (HttpError 400 ''Actions not allowed at this time''), st)
          else
            (case getPlayer st pid of
               None \<Rightarrow> (Inl (HttpError 400 ''Player cannot take action''), st)
             | Some actor \<Rightarrow>
                 if status actor \<noteq> ALIVE
                 then (Inl (HttpError 400 ''Player cannot take action''), st)
                 else
                   (case validActions (role actor) of
                      None \<Rightarrow> (Inl (HttpError 400 ''Invalid action for your role''), st)
                    | Some allowed \<Rightarrow>
                        if action \<notin> set allowed
                        then (Inl (HttpError 400 ''Invalid action for your role''), st)
                        else
                          (Inr (),
                           updatePlayer st pid
                             (\<lambda>p. p\<lparr>lastAction := Some action, actionTarget := targetId\<rparr>)))))"

section \<open>Auxiliary definitions for the proofs\<close>

text \<open>The assignment built from a shuffled player and a role slot.\<close>

definition mkAssignment :: "player \<times> role \<Rightarrow> RoleAssignment" where
  "mkAssignment pr = \<lparr>playerId = id_p (fst pr), role_a = snd pr\<rparr>"

text \<open>The role slots of a distribution, in the order in which the two loops visit them.\<close>

definition expandDist :: "(role \<times> int) list \<Rightarrow> role list" where
  "expandDist dist = concat (map (\<lambda>(r, c). replicate (nat c) r) dist)"

text \<open>Every vote counter of the store is at least 0.\<close>

definition votesNonneg :: "store \<Rightarrow> bool" where
  "votesNonneg st = list_all (\<lambda>p. 0 \<le> votes p) (players st)"

text \<open>An attacker \<open>m\<close> whose kill on \<open>t\<close> goes through: \<open>t\<close> is a non-empty target outside \<open>saves\<close>.\<close>

definition kills :: "string option set \<Rightarrow> string \<Rightarrow> player \<Rightarrow> bool" where
  "kills saves t m = (actionTarget m = Some t \<and> t \<noteq> [] \<and> Some t \<notin> saves)"

section \<open>Sample sessions\<close>

text \<open>Rows with the column defaults of the schema.\<close>

definition newPlayer :: "string \<Rightarrow> string \<Rightarrow> string \<Rightarrow> player" where
  "newPlayer pid gid nm =
     \<lparr>id_p = pid, gameId = gid, name_p = nm, role = None, status = ALIVE, isReady = False,
      isHost = False, votes = 0, votedFor = None, lastAction = None, actionTarget = None\<rparr>"

definition newGame :: "string \<Rightarrow> string \<Rightarrow> string \<Rightarrow> game" where
  "newGame gid nm host =
     \<lparr>id_g = gid, roomCode = None, name_g = nm, hostId = host, maxPlayers = 8,
      currentPhase = LOBBY, dayNumber = 1, timeRemaining = Some 300, isActive = True,
      geminiApiKey = None, narrative = Some [], gameLog = Some [],
      roleDistribution = Some [(VILLAGER, 3), (DOCTOR, 1), (DETECTIVE, 1), (MAFIA, 1)],
      updatedAt = 0\<rparr>"

text \<open>An environment without a text service, whose shuffle always draws 0.\<close>

definition quietEnv :: "nat \<Rightarrow> env" where
  "quietEnv t =
     \<lparr>now = t, draws = (\<lambda>i. 0),
      generateNarrative = (\<lambda>ph d n evs k. None),
      generateGameSummary = (\<lambda>w ps evs k. None)\<rparr>"

definition fourPlayers :: "player list" where
  "fourPlayers =
     [newPlayer ''p1'' ''g1'' ''Ann'', newPlayer ''p2'' ''g1'' ''Bob'',
      newPlayer ''p3'' ''g1'' ''Cat'', newPlayer ''p4'' ''g1'' ''Dan'']"

text \<open>Four alive voters: two ballots for \<open>p3\<close> and two for \<open>p4\<close>.\<close>

definition tiedVotes :: "player list" where
  "tiedVotes =
     [(newPlayer ''p1'' ''g1'' ''Ann'')\<lparr>votedFor := Some ''p3''\<rparr>,
      (newPlayer ''p2'' ''g1'' ''Bob'')\<lparr>votedFor := Some ''p4''\<rparr>,
      (newPlayer ''p3'' ''g1'' ''Cat'')\<lparr>votedFor := Some ''p4'', votes := 2\<rparr>,
      (newPlayer ''p4'' ''g1'' ''Dan'')\<lparr>votedFor := Some ''p3'', votes := 2\<rparr>]"

text \<open>
  Two Mafia and two others alive; two more participants are eliminated, one of them Mafia.
\<close>

definition twoAgainstTwo :: "player list" where
  "twoAgainstTwo =
     [(newPlayer ''p1'' ''g1'' ''Ann'')\<lparr>role := Some MAFIA\<rparr>,
      (newPlayer ''p2'' ''g1'' ''Bob'')\<lparr>role := Some MAFIA\<rparr>,
      (newPlayer ''p3'' ''g1'' ''Cat'')\<lparr>role := Some DOCTOR\<rparr>,
      (newPlayer ''p4'' ''g1'' ''Dan'')\<lparr>role := Some VILLAGER\<rparr>,
      (newPlayer ''p5'' ''g1'' ''Eve'')\<lparr>role := Some VILLAGER, status := ELIMINATED\<rparr>,
      (newPlayer ''p6'' ''g1'' ''Fay'')\<lparr>role := Some MAFIA, status := ELIMINATED\<rparr>]"

text \<open>The only Mafia player is eliminated; two others are alive.\<close>

definition deadMafiaVillage :: "player list" where
  "deadMafiaVillage =
     [(newPlayer ''p1'' ''g1'' ''Ann'')\<lparr>role := Some MAFIA, status := ELIMINATED\<rparr>,
      (newPlayer ''p2'' ''g1'' ''Bob'')\<lparr>role := Some VILLAGER\<rparr>,
      (newPlayer ''p3'' ''g1'' ''Cat'')\<lparr>role := Some DOCTOR\<rparr>]"

text \<open>A session ended by the host at time 1000, and one in its third night.\<close>

definition endedGame :: game where
  "endedGame =
     (newGame ''g1'' ''Village'' ''p1'')
       \<lparr>currentPhase := ENDED, timeRemaining := Some 0, isActive := False, updatedAt := 1000\<rparr>"

definition endedStore :: store where
  "endedStore = \<lparr>games = [endedGame], players = fourPlayers\<rparr>"

definition nightGame :: game where
  "nightGame = (newGame ''g1'' ''Village'' ''p1'')\<lparr>currentPhase := NIGHT, dayNumber := 3\<rparr>"

text \<open>Four ready participants in the session that is in its third night.\<close>

definition readyNightStore :: store where
  "readyNightStore =
     \<lparr>games = [nightGame], players = map (\<lambda>p. p\<lparr>isReady := True\<rparr>) fourPlayers\<rparr>"

text \<open>
  A night with two attackers: \<open>p1\<close> targets \<open>p4\<close>, \<open>p2\<close> targets \<open>p5\<close>, and the
  doctor \<open>p3\<close> heals \<open>p4\<close>.
\<close>

definition nightPlayers :: "player list" where
  "nightPlayers =
     [(newPlayer ''p1'' ''g1'' ''Ann'')
        \<lparr>role := Some MAFIA, lastAction := Some ''KILL'', actionTarget := Some ''p4''\<rparr>,
      (newPlayer ''p2'' ''g1'' ''Bob'')
        \<lparr>role := Some MAFIA, lastAction := Some ''KILL'', actionTarget := Some ''p5''\<rparr>,
      (newPlayer ''p3'' ''g1'' ''Cat'')
        \<lparr>role := Some DOCTOR, lastAction := Some ''HEAL'', actionTarget := Some ''p4''\<rparr>,
      (newPlayer ''p4'' ''g1'' ''Dan'')\<lparr>role := Some VILLAGER\<rparr>,
      (newPlayer ''p5'' ''g1'' ''Eve'')\<lparr>role := Some DETECTIVE\<rparr>,
      (newPlayer ''p6'' ''g1'' ''Fay'')\<lparr>role := Some VILLAGER\<rparr>,
      (newPlayer ''p7'' ''g1'' ''Gus'')\<lparr>role := Some VILLAGER\<rparr>]"

definition nightStore :: store where
  "nightStore = \<lparr>games = [nightGame], players = nightPlayers\<rparr>"

text \<open>
  A night in which the only pending action belongs to an ELIMINATED Mafia player: \<open>p1\<close>
  chose to kill \<open>p2\<close> while alive and was eliminated before the night was resolved.
\<close>

definition deadKillerPlayers :: "player list" where
  "deadKillerPlayers =
     [(newPlayer ''p1'' ''g1'' ''Ann'')
        \<lparr>role := Some MAFIA, status := ELIMINATED,
         lastAction := Some ''KILL'', actionTarget := Some ''p2''\<rparr>,
      (newPlayer ''p2'' ''g1'' ''Bob'')\<lparr>role := Some VILLAGER\<rparr>,
      (newPlayer ''p3'' ''g1'' ''Cat'')\<lparr>role := Some MAFIA\<rparr>,
      (newPlayer ''p4'' ''g1'' ''Dan'')\<lparr>role := Some DOCTOR\<rparr>,
      (newPlayer ''p5'' ''g1'' ''Eve'')\<lparr>role := Some VILLAGER\<rparr>]"

definition deadKillerStore :: store where
  "deadKillerStore = \<lparr>games = [nightGame], players = deadKillerPlayers\<rparr>"

text \<open>The voting phase with the four ballots of \<open>tiedVotes\<close>.\<close>

definition votingStore :: store where
  "votingStore =
     \<lparr>games = [(newGame ''g1'' ''Village'' ''p1'')\<lparr>currentPhase := VOTING\<rparr>],
      players = tiedVotes\<rparr>"

section \<open>Default role distribution\<close>

text \<open>
  C8. For every player count \<open>n \<ge> 4\<close> the default distribution is
  mafia = max(1, floor(n/3)), doctor = 1, detective = 1, villagers = max(1, n - floor(n/3) - 2),
  and the four counts sum to exactly \<open>n\<close>; for \<open>n = 4\<close> every role has count 1.
\<close>

theorem calculateRoleDistribution_spec:
  assumes "4 \<le> n"
  shows "calculateRoleDistribution n =
           [(VILLAGER, max 1 (n - n div 3 - 2)), (DOCTOR, 1), (DETECTIVE, 1),
            (MAFIA, max 1 (n div 3))]
         \<and> sum_list (map snd (calculateRoleDistribution n)) = n"
proof -
  have "1 \<le> n div 3" "1 \<le> n - n div 3 - 2" using assms by presburger+
  then show ?thesis by (simp add: calculateRoleDistribution_def Let_def max_def)
qed

theorem calculateRoleDistribution_spec_witness:
  "(4::int) \<le> 4
   \<and> calculateRoleDistribution 4 = [(VILLAGER, 1), (DOCTOR, 1), (DETECTIVE, 1), (MAFIA, 1)]
   \<and> sum_list (map snd (calculateRoleDistribution 4)) = 4"
  using calculateRoleDistribution_spec [of 4] by simp

section \<open>Win condition\<close>

text \<open>
  C3. \<open>checkWinCondition\<close> counts ALIVE participants only. It returns VILLAGERS exactly
  when no participant is both ALIVE and Mafia; it returns MAFIA exactly when the number of
  ALIVE Mafia is nonzero and at least the number of ALIVE participants who are not Mafia
  (a tie favours Mafia); it returns no winner otherwise.
\<close>

theorem checkWinCondition_spec:
  "(checkWinCondition ps = Some WIN_VILLAGERS)
       = (length (filter (\<lambda>p. status p = ALIVE \<and> role p = Some MAFIA) ps) = 0)
   \<and> (checkWinCondition ps = Some WIN_MAFIA)
       = (length (filter (\<lambda>p. status p = ALIVE \<and> role p = Some MAFIA) ps) \<noteq> 0
          \<and> length (filter (\<lambda>p. status p = ALIVE \<and> role p = Some MAFIA) ps)
              \<ge> length (filter (\<lambda>p. status p = ALIVE \<and> role p \<noteq> Some MAFIA) ps))
   \<and> (checkWinCondition ps = None)
       = (length (filter (\<lambda>p. status p = ALIVE \<and> role p = Some MAFIA) ps) \<noteq> 0
          \<and> length (filter (\<lambda>p. status p = ALIVE \<and> role p = Some MAFIA) ps)
              < length (filter (\<lambda>p. status p = ALIVE \<and> role p \<noteq> Some MAFIA) ps))"
proof -
  have m: "aliveMafia ps = filter (\<lambda>p. status p = ALIVE \<and> role p = Some MAFIA) ps"
    by (simp add: aliveMafia_def alivePlayersOf_def)
  have v: "aliveVillagers ps = filter (\<lambda>p. status p = ALIVE \<and> role p \<noteq> Some MAFIA) ps"
    by (simp add: aliveVillagers_def alivePlayersOf_def)
  show ?thesis
    unfolding checkWinCondition_def m v by auto
qed

theorem checkWinCondition_spec_witness:
  "length (filter (\<lambda>p. status p = ALIVE \<and> role p = Some MAFIA) deadMafiaVillage) = 0
   \<and> length (filter (\<lambda>p. role p = Some MAFIA) deadMafiaVillage) = 1
   \<and> checkWinCondition deadMafiaVillage = Some WIN_VILLAGERS
   \<and> length (filter (\<lambda>p. status p = ALIVE \<and> role p = Some MAFIA) twoAgainstTwo) = 2
   \<and> length (filter (\<lambda>p. status p = ALIVE \<and> role p \<noteq> Some MAFIA) twoAgainstTwo) = 2
   \<and> checkWinCondition twoAgainstTwo = Some WIN_MAFIA"
proof -
  have a: "length (filter (\<lambda>p. status p = ALIVE \<and> role p = Some MAFIA) deadMafiaVillage) = 0"
    "length (filter (\<lambda>p. role p = Some MAFIA) deadMafiaVillage) = 1"
    by (simp_all add: deadMafiaVillage_def newPlayer_def)
  have b: "length (filter (\<lambda>p. status p = ALIVE \<and> role p = Some MAFIA) twoAgainstTwo) = 2"
    "length (filter (\<lambda>p. status p = ALIVE \<and> role p \<noteq> Some MAFIA) twoAgainstTwo) = 2"
    by (simp_all add: twoAgainstTwo_def newPlayer_def)
  show ?thesis
    using checkWinCondition_spec [of deadMafiaVillage] checkWinCondition_spec [of twoAgainstTwo]
    by (simp only: a b) simp
qed

section \<open>Valid targets\<close>

text \<open>
  C9. Whatever the acting player, the player list and the phase, every valid target is a
  player of the list other than the actor, is ALIVE, and, when the actor is MAFIA (whose
  targets exist only at NIGHT), is not MAFIA.
\<close>

theorem getValidTargets_spec:
  assumes "t \<in> set (getValidTargets actor allPlayers ph)"
  shows "t \<in> set allPlayers \<and> id_p t \<noteq> id_p actor \<and> status t = ALIVE
         \<and> (role actor = Some MAFIA \<longrightarrow> ph = ''NIGHT'' \<and> role t \<noteq> Some MAFIA)"
  using assms
  by (auto simp: getValidTargets_def Let_def split: option.splits role.splits if_splits)

theorem getValidTargets_spec_witness:
  "twoAgainstTwo ! 3 \<in> set (getValidTargets (twoAgainstTwo ! 0) twoAgainstTwo ''NIGHT'')
   \<and> role (twoAgainstTwo ! 0) = Some MAFIA
   \<and> id_p (twoAgainstTwo ! 3) \<noteq> id_p (twoAgainstTwo ! 0)
   \<and> status (twoAgainstTwo ! 3) = ALIVE
   \<and> role (twoAgainstTwo ! 3) \<noteq> Some MAFIA"
proof -
  have mem: "twoAgainstTwo ! 3 \<in> set (getValidTargets (twoAgainstTwo ! 0) twoAgainstTwo ''NIGHT'')"
    by (simp add: getValidTargets_def twoAgainstTwo_def newPlayer_def)
  have "role (twoAgainstTwo ! 0) = Some MAFIA"
    by (simp add: twoAgainstTwo_def newPlayer_def)
  then show ?thesis using mem getValidTargets_spec [OF mem] by simp
qed

section \<open>Role assignment\<close>

lemma length_shuffleLoop: "length (shuffleLoop rnd i xs) = length xs"
  by (induction i arbitrary: xs) (simp_all add: Let_def)

lemma mset_shuffleLoop: "i < length xs \<Longrightarrow> mset (shuffleLoop rnd i xs) = mset xs"
proof (induction i arbitrary: xs)
  case 0
  then show ?case by simp
next
  case (Suc i)
  let ?j = "rnd (Suc i) mod (Suc i + 1)"
  have "?j < Suc i + 1" by (rule mod_less_divisor) simp
  then have j: "?j < length xs" using Suc.prems by linarith
  have "mset (xs[Suc i := xs ! ?j, ?j := xs ! Suc i]) = mset xs"
    using mset_swap [OF j Suc.prems] .
  moreover have "i < length (xs[Suc i := xs ! ?j, ?j := xs ! Suc i])"
    using Suc.prems by simp
  ultimately show ?case using Suc.IH by (simp add: Let_def)
qed

lemma mset_shuffle: "mset (shuffle rnd xs) = mset xs"
proof (cases xs)
  case Nil
  then show ?thesis by (simp add: shuffle_def)
next
  case (Cons a list)
  then show ?thesis unfolding shuffle_def by (intro mset_shuffleLoop) simp
qed

lemma assignSlots_zip:
  "assignSlots ps r n (k, acc) =
     (k + min n (length ps - k),
      acc @ map mkAssignment (zip (drop k ps) (replicate n r)))"
proof (induction n arbitrary: k acc)
  case 0
  then show ?case by simp
next
  case (Suc n)
  show ?case
  proof (cases "k < length ps")
    case True
    then have d: "drop k ps = ps ! k # drop (Suc k) ps"
      by (simp add: Cons_nth_drop_Suc)
    show ?thesis using True Suc.IH [of "Suc k"] by (simp add: d mkAssignment_def)
  next
    case False
    then show ?thesis using Suc.IH [of k acc] by simp
  qed
qed

lemma zip_take_right: "zip (take (length ys) xs) ys = zip xs ys"
  by (induction xs ys rule: list_induct2') simp_all

lemma assignEntries_zip:
  "snd (assignEntries ps dist (k, acc)) =
     acc @ map mkAssignment (zip (drop k ps) (expandDist dist))"
proof (induction dist arbitrary: k acc)
  case Nil
  then show ?case by (simp add: expandDist_def)
next
  case (Cons e dist)
  obtain r c where e: "e = (r, c)" by (cases e)
  have "drop (min (nat c) (length ps - k)) (drop k ps) = drop (nat c) (drop k ps)"
    by (cases "nat c \<le> length ps - k") (simp_all add: min_def)
  then show ?case
    using Cons.IH [of "k + min (nat c) (length ps - k)"]
    by (simp add: e assignSlots_zip expandDist_def zip_append2 add.commute
          zip_take_right [of "replicate (nat c) r", simplified])
qed

lemma playerId_mkAssignment: "map playerId (map mkAssignment zs) = map id_p (map fst zs)"
  by (simp add: mkAssignment_def)

lemma role_a_mkAssignment: "map role_a (map mkAssignment zs) = map snd zs"
  by (simp add: mkAssignment_def)

lemma assignRoles_zip:
  "assignRoles rnd ps dist = map mkAssignment (zip (shuffle rnd ps) (expandDist dist))"
  using assignEntries_zip [of "shuffle rnd ps" dist 0 "[]"] by (simp add: assignRoles_def)

lemma length_expandDist:
  "\<forall>e \<in> set dist. 0 \<le> snd e \<Longrightarrow> int (length (expandDist dist)) = sum_list (map snd dist)"
  by (induction dist) (auto simp: expandDist_def)

lemma count_expandDist:
  "distinct (map fst dist) \<Longrightarrow>
   length (filter (\<lambda>x. x = r) (expandDist dist)) =
     (case map_of dist r of Some c \<Rightarrow> nat c | None \<Rightarrow> 0)"
proof (induction dist)
  case Nil
  then show ?case by (simp add: expandDist_def)
next
  case (Cons e dist)
  obtain r' c where e: "e = (r', c)" by (cases e)
  have nin: "r' = r \<Longrightarrow> map_of dist r = None"
    using Cons.prems by (simp add: e map_of_eq_None_iff)
  have IH: "length (filter (\<lambda>x. x = r) (concat (map (\<lambda>(r, c). replicate (nat c) r) dist))) =
     (case map_of dist r of Some c \<Rightarrow> nat c | None \<Rightarrow> 0)"
    using Cons by (simp add: expandDist_def)
  show ?case
    using nin by (auto simp: e expandDist_def IH)
qed

text \<open>
  C7. For every participant list (identifiers are primary keys, hence distinct) and every
  role-distribution map (an object: each role is a key at most once, each count is
  non-negative) whose counts sum to \<open>N\<close> with \<open>N\<close> at most the number of
  participants, \<open>assignRoles\<close> returns exactly \<open>N\<close> assignments, no identifier is
  assigned twice, every assigned identifier comes from the input list, and each role is
  assigned as often as its count says. This holds for every outcome of the random draws.
\<close>

theorem assignRoles_spec:
  assumes ids: "distinct (map id_p ps)"
    and keys: "distinct (map fst dist)"
    and nonneg: "\<forall>e \<in> set dist. 0 \<le> snd e"
    and total: "sum_list (map snd dist) = int N"
    and enough: "N \<le> length ps"
  shows "length (assignRoles rnd ps dist) = N
       \<and> distinct (map playerId (assignRoles rnd ps dist))
       \<and> set (map playerId (assignRoles rnd ps dist)) \<subseteq> set (map id_p ps)
       \<and> (\<forall>r. length (filter (\<lambda>a. role_a a = r) (assignRoles rnd ps dist))
              = (case map_of dist r of Some c \<Rightarrow> nat c | None \<Rightarrow> 0))"
proof -
  let ?sh = "shuffle rnd ps"
  let ?ex = "expandDist dist"
  have len_ex: "length ?ex = N" using length_expandDist [OF nonneg] total by simp
  have len_sh: "length ?sh = length ps" using mset_shuffle [of rnd ps] by (metis size_mset)
  have zipeq: "zip ?sh ?ex = zip (take N ?sh) ?ex"
    using len_ex zip_take_right [of ?ex ?sh] by simp
  have ids_eq: "map playerId (assignRoles rnd ps dist) = map id_p (take N ?sh)"
    using len_ex len_sh enough
    by (simp only: assignRoles_zip zipeq playerId_mkAssignment) simp
  have roles_eq: "map role_a (assignRoles rnd ps dist) = ?ex"
    using len_ex len_sh enough
    by (simp only: assignRoles_zip zipeq role_a_mkAssignment) simp
  have "mset (map id_p ?sh) = mset (map id_p ps)" by (simp add: mset_shuffle)
  then have dsh: "distinct (map id_p ?sh)" and ssh: "set (map id_p ?sh) = set (map id_p ps)"
    using ids by (metis mset_eq_imp_distinct_iff, metis set_mset_mset)
  have c1: "length (assignRoles rnd ps dist) = N"
    using len_ex len_sh enough by (simp add: assignRoles_zip)
  have c2: "distinct (map playerId (assignRoles rnd ps dist))"
    unfolding ids_eq using dsh by (simp add: take_map [symmetric] distinct_take del: take_map)
  have c3: "set (map playerId (assignRoles rnd ps dist)) \<subseteq> set (map id_p ps)"
    unfolding ids_eq ssh [symmetric] by (metis set_take_subset take_map)
  have c4: "length (filter (\<lambda>a. role_a a = r) (assignRoles rnd ps dist))
              = (case map_of dist r of Some c \<Rightarrow> nat c | None \<Rightarrow> 0)" for r
  proof -
    have "length (filter (\<lambda>a. role_a a = r) (assignRoles rnd ps dist))
          = length (filter (\<lambda>x. x = r) (map role_a (assignRoles rnd ps dist)))"
      by (simp add: filter_map comp_def)
    then show ?thesis by (simp add: roles_eq count_expandDist [OF keys])
  qed
  show ?thesis using c1 c2 c3 c4 by blast
qed

theorem assignRoles_spec_witness:
  "length (assignRoles (\<lambda>i. 0) fourPlayers (calculateRoleDistribution 4)) = 4
   \<and> distinct (map playerId (assignRoles (\<lambda>i. 0) fourPlayers (calculateRoleDistribution 4)))
   \<and> set (map playerId (assignRoles (\<lambda>i. 0) fourPlayers (calculateRoleDistribution 4)))
       \<subseteq> {''p1'', ''p2'', ''p3'', ''p4''}
   \<and> length (filter (\<lambda>a. role_a a = MAFIA)
         (assignRoles (\<lambda>i. 0) fourPlayers (calculateRoleDistribution 4))) = 1"
proof -
  have ids: "distinct (map id_p fourPlayers)"
    by (simp add: fourPlayers_def newPlayer_def)
  have keys: "distinct (map fst (calculateRoleDistribution 4))"
    by (simp add: calculateRoleDistribution_def)
  have nonneg: "\<forall>e \<in> set (calculateRoleDistribution 4). 0 \<le> snd e"
    by (simp add: calculateRoleDistribution_def)
  have total: "sum_list (map snd (calculateRoleDistribution 4)) = int 4"
    by (simp add: calculateRoleDistribution_def)
  have enough: "4 \<le> length fourPlayers"
    by (simp add: fourPlayers_def)
  have src: "set (map id_p fourPlayers) = {''p1'', ''p2'', ''p3'', ''p4''}"
    by (simp add: fourPlayers_def newPlayer_def)
  have cnt: "(case map_of (calculateRoleDistribution 4) MAFIA of Some c \<Rightarrow> nat c | None \<Rightarrow> 0) = 1"
    by (simp add: calculateRoleDistribution_def)
  show ?thesis
    using assignRoles_spec [OF ids keys nonneg total enough, of "\<lambda>i. 0"] src cnt by simp
qed

section \<open>Vote tabulation\<close>

text \<open>
  C1. The claim is that a tie for the maximum vote count eliminates nobody and that the
  first target to reach the maximum is not chosen. The code compares with \<open>votes > maxVotes\<close>
  only, so the first target entered into the tally wins a tie: with two ballots for
  \<open>p3\<close> and two for \<open>p4\<close> among four alive voters, the tally is \<open>{p3: 2, p4: 2}\<close>
  and \<open>p3\<close> is eliminated. The branch that logs "No one was eliminated (tie vote)" is
  reached only when no target is found.
\<close>

theorem tabulate_tie_first_seen:
  "tallyVotes (filter (\<lambda>p. status p = ALIVE) tiedVotes) = [(''p3'', 2), (''p4'', 2)]
   \<and> map_option id_p (tabulate tiedVotes) = Some ''p3''"
  by (simp add: tabulate_def tiedVotes_def newPlayer_def tallyVotes_def mostVotes_def)

section \<open>Facts about the store\<close>

lemma find_map_key:
  "(\<And>x. key (f x) = key x) \<Longrightarrow>
   find (\<lambda>x. key x = k) (map f xs) = map_option f (find (\<lambda>x. key x = k) xs)"
  by (induction xs) simp_all

lemma players_updateGame: "players (updateGame t st gid upd) = players st"
  by (simp add: updateGame_def)

lemma getPlayer_updateGame: "getPlayer (updateGame t st gid upd) x = getPlayer st x"
  by (simp add: getPlayer_def players_updateGame)

lemma getPlayer_id: "getPlayer st t = Some p \<Longrightarrow> id_p p = t"
  by (auto simp: getPlayer_def find_Some_iff)

lemma getPlayer_updatePlayer:
  assumes "\<And>p. id_p (upd p) = id_p p"
  shows "getPlayer (updatePlayer st x upd) t
         = (if t = x then map_option upd (getPlayer st t) else getPlayer st t)"
proof -
  have "getPlayer (updatePlayer st x upd) t
        = map_option (\<lambda>p. if id_p p = x then upd p else p) (getPlayer st t)"
    unfolding getPlayer_def updatePlayer_def
    using find_map_key [of id_p "\<lambda>p. if id_p p = x then upd p else p" t "players st"]
    by (simp add: assms)
  then show ?thesis
    by (cases "getPlayer st t") (auto dest: getPlayer_id)
qed

lemma getGame_updateGame:
  assumes "\<And>u. id_g (upd u) = id_g u"
  shows "getGame (updateGame t st gid upd) gid
         = map_option (\<lambda>u. (upd u)\<lparr>updatedAt := t\<rparr>) (getGame st gid)"
proof -
  have "find (\<lambda>u. id_g u = gid) (map (\<lambda>u. if id_g u = gid then (upd u)\<lparr>updatedAt := t\<rparr> else u) xs)
        = map_option (\<lambda>u. (upd u)\<lparr>updatedAt := t\<rparr>) (find (\<lambda>u. id_g u = gid) xs)" for xs
    by (induction xs) (simp_all add: assms)
  then show ?thesis by (simp add: getGame_def updateGame_def)
qed

lemma games_updatePlayer: "games (updatePlayer st x upd) = games st"
  by (simp add: updatePlayer_def)

lemma games_foldl_updatePlayer:
  "games (foldl (\<lambda>s a. updatePlayer s (key a) (upd a)) st xs) = games st"
  by (induction xs arbitrary: st) (simp_all add: games_updatePlayer)

lemma getGame_foldl_updatePlayer:
  "getGame (foldl (\<lambda>s a. updatePlayer s (key a) (upd a)) st xs) gid = getGame st gid"
  by (simp add: getGame_def games_foldl_updatePlayer)

section \<open>Night resolution\<close>

lemma status_clearNightActions:
  "map_option status (getPlayer (clearNightActions st ps) t) = map_option status (getPlayer st t)"
  unfolding clearNightActions_def
proof (induction ps arbitrary: st)
  case Nil
  then show ?case by simp
next
  case (Cons a ps)
  show ?case
    by (simp add: Cons.IH getPlayer_updatePlayer option.map_comp comp_def)
qed

lemma nightKill_store:
  "fst (nightKill ps saves (st, lg) m)
   = (case actionTarget m of
        None \<Rightarrow> st
      | Some t \<Rightarrow> if t \<noteq> [] \<and> Some t \<notin> saves
                  then updatePlayer st t (\<lambda>p. p\<lparr>status := ELIMINATED\<rparr>) else st)"
  by (simp add: nightKill_def split: option.splits)

lemma kills_none_unchanged:
  "\<forall>m \<in> set ms. \<not> kills saves t m \<Longrightarrow>
   getPlayer (fst (foldl (nightKill ps saves) s ms)) t = getPlayer (fst s) t"
proof (induction ms arbitrary: s)
  case Nil
  then show ?case by simp
next
  case (Cons m ms)
  obtain st lg where s: "s = (st, lg)" by (cases s)
  have "getPlayer (fst (nightKill ps saves (st, lg) m)) t = getPlayer st t"
    using Cons.prems
    by (auto simp: nightKill_store kills_def getPlayer_updatePlayer split: option.splits)
  then show ?case using Cons by (simp add: s)
qed

lemma eliminated_stays:
  "map_option status (getPlayer (fst s) t) = Some ELIMINATED \<Longrightarrow>
   map_option status (getPlayer (fst (foldl (nightKill ps saves) s ms)) t) = Some ELIMINATED"
proof (induction ms arbitrary: s)
  case Nil
  then show ?case by simp
next
  case (Cons m ms)
  obtain st lg where s: "s = (st, lg)" by (cases s)
  have "map_option status (getPlayer (fst (nightKill ps saves (st, lg) m)) t) = Some ELIMINATED"
    using Cons.prems
    by (auto simp: s nightKill_store getPlayer_updatePlayer split: option.splits)
  then show ?case using Cons.IH by (simp add: s)
qed

lemma kills_some_eliminated:
  "\<exists>m \<in> set ms. kills saves t m \<Longrightarrow> getPlayer (fst s) t = Some p \<Longrightarrow>
   map_option status (getPlayer (fst (foldl (nightKill ps saves) s ms)) t) = Some ELIMINATED"
proof (induction ms arbitrary: s p)
  case Nil
  then show ?case by simp
next
  case (Cons m ms)
  obtain st lg where s: "s = (st, lg)" by (cases s)
  show ?case
  proof (cases "kills saves t m")
    case True
    then have "map_option status (getPlayer (fst (nightKill ps saves (st, lg) m)) t) = Some ELIMINATED"
      using Cons.prems(2)
      by (simp add: s nightKill_store kills_def getPlayer_updatePlayer)
    then show ?thesis using eliminated_stays by (simp add: s)
  next
    case False
    then have ex: "\<exists>m \<in> set ms. kills saves t m" using Cons.prems(1) by auto
    have "getPlayer (fst (nightKill ps saves (st, lg) m)) t = Some p"
      using False Cons.prems(2)
      by (auto simp: s nightKill_store kills_def getPlayer_updatePlayer split: option.splits)
    then show ?thesis using Cons.IH [OF ex] by (simp add: s)
  qed
qed

lemma nightCase_store:
  "fst (nightCase st gid g ps lg)
   = clearNightActions (fst (applyNightKills ps (st, lg @ processNightActions ps))) ps"
  by (simp add: nightCase_def Let_def case_prod_beta split: option.splits)

lemma nextPhase_NIGHT_store:
  assumes "getGame st gid = Some g" and "currentPhase g = NIGHT"
  shows "getPlayer (snd (nextPhase e st gid)) t
         = getPlayer (fst (nightCase st gid g (getPlayersByGame st gid)
                             (case gameLog g of Some l \<Rightarrow> l | None \<Rightarrow> []))) t"
  using assms
  by (simp add: nextPhase_def Let_def case_prod_beta getPlayer_updateGame)

lemma nextPhase_NIGHT_status:
  assumes "getGame st gid = Some g" and "currentPhase g = NIGHT"
  shows "map_option status (getPlayer (snd (nextPhase e st gid)) t)
         = map_option status
             (getPlayer
                (fst (foldl (nightKill (getPlayersByGame st gid)
                               (doctorSaves (getPlayersByGame st gid)))
                        (st, (case gameLog g of Some l \<Rightarrow> l | None \<Rightarrow> [])
                               @ processNightActions (getPlayersByGame st gid))
                        (mafiaActions (getPlayersByGame st gid)))) t)"
  by (simp add: nextPhase_NIGHT_store [OF assms] nightCase_store
      status_clearNightActions applyNightKills_def)

text \<open>
  C4. In a session that is in NIGHT, let \<open>t\<close> be the (non-empty) target of a KILL
  action of some Mafia player of the session, and let \<open>t\<close> name a participant who is
  ALIVE before the advance. After the advance that participant is ELIMINATED if and only
  if \<open>t\<close> is not in the protected set built from all HEAL targets of Doctors. The
  protected set is computed once, from the same snapshot, for every attacker: a heal on
  \<open>t\<close> saves \<open>t\<close> from every attacker, and does nothing for another target.
\<close>

theorem night_kill_iff_unprotected:
  assumes game: "getGame st gid = Some g" and night: "currentPhase g = NIGHT"
    and attacker: "m \<in> set (getPlayersByGame st gid)" "role m = Some MAFIA"
      "lastAction m = Some ''KILL''" "actionTarget m = Some t" "t \<noteq> []"
    and target: "getPlayer st t = Some p" "status p = ALIVE"
  shows "(map_option status (getPlayer (snd (nextPhase e st gid)) t) = Some ELIMINATED)
         = (Some t \<notin> doctorSaves (getPlayersByGame st gid))"
proof -
  let ?ps = "getPlayersByGame st gid"
  let ?s0 = "(st, (case gameLog g of Some l \<Rightarrow> l | None \<Rightarrow> []) @ processNightActions ?ps)"
  have after: "map_option status (getPlayer (snd (nextPhase e st gid)) t)
      = map_option status
          (getPlayer (fst (foldl (nightKill ?ps (doctorSaves ?ps)) ?s0 (mafiaActions ?ps))) t)"
    by (rule nextPhase_NIGHT_status [OF game night])
  have mem: "m \<in> set (mafiaActions ?ps)"
    using attacker by (simp add: mafiaActions_def)
  show ?thesis
  proof (cases "Some t \<in> doctorSaves ?ps")
    case True
    then have "\<forall>m \<in> set (mafiaActions ?ps). \<not> kills (doctorSaves ?ps) t m"
      by (simp add: kills_def)
    from kills_none_unchanged [OF this]
    show ?thesis using True target by (simp add: after)
  next
    case False
    then have "\<exists>m \<in> set (mafiaActions ?ps). kills (doctorSaves ?ps) t m"
      using mem attacker by (auto simp: kills_def)
    from kills_some_eliminated [OF this, of ?s0 p ?ps]
    show ?thesis using False target by (simp add: after)
  qed
qed

theorem night_kill_iff_unprotected_witness:
  "map_option status (getPlayer nightStore ''p4'') = Some ALIVE
   \<and> map_option status (getPlayer nightStore ''p5'') = Some ALIVE
   \<and> doctorSaves (getPlayersByGame nightStore ''g1'') = {Some ''p4''}
   \<and> map_option status (getPlayer (snd (nextPhase (quietEnv 2000) nightStore ''g1'')) ''p4'')
       \<noteq> Some ELIMINATED
   \<and> map_option status (getPlayer (snd (nextPhase (quietEnv 2000) nightStore ''g1'')) ''p5'')
       = Some ELIMINATED"
proof -
  have game: "getGame nightStore ''g1'' = Some nightGame"
    by (simp add: getGame_def nightStore_def nightGame_def newGame_def)
  have night: "currentPhase nightGame = NIGHT"
    by (simp add: nightGame_def)
  have ps: "getPlayersByGame nightStore ''g1'' = nightPlayers"
    by (simp add: getPlayersByGame_def nightStore_def nightPlayers_def newPlayer_def)
  have saves: "doctorSaves nightPlayers = {Some ''p4''}"
    by (simp add: doctorSaves_def nightPlayers_def newPlayer_def)
  have a1: "nightPlayers ! 0 \<in> set (getPlayersByGame nightStore ''g1'')"
    "role (nightPlayers ! 0) = Some MAFIA" "lastAction (nightPlayers ! 0) = Some ''KILL''"
    "actionTarget (nightPlayers ! 0) = Some ''p4''"
    by (simp_all add: ps) (simp_all add: nightPlayers_def newPlayer_def)
  have a2: "nightPlayers ! 1 \<in> set (getPlayersByGame nightStore ''g1'')"
    "role (nightPlayers ! 1) = Some MAFIA" "lastAction (nightPlayers ! 1) = Some ''KILL''"
    "actionTarget (nightPlayers ! 1) = Some ''p5''"
    by (simp_all add: ps) (simp_all add: nightPlayers_def newPlayer_def)
  have t4: "getPlayer nightStore ''p4'' = Some (nightPlayers ! 3)" "status (nightPlayers ! 3) = ALIVE"
    by (simp_all add: getPlayer_def nightStore_def nightPlayers_def newPlayer_def)
  have t5: "getPlayer nightStore ''p5'' = Some (nightPlayers ! 4)" "status (nightPlayers ! 4) = ALIVE"
    by (simp_all add: getPlayer_def nightStore_def nightPlayers_def newPlayer_def)
  have ne: "''p4'' \<noteq> []" "''p5'' \<noteq> []" by simp_all
  show ?thesis
    using night_kill_iff_unprotected [OF game night a1 ne(1) t4, of "quietEnv 2000"]
      night_kill_iff_unprotected [OF game night a2 ne(2) t5, of "quietEnv 2000"]
    by (simp add: ps saves t4 t5)
qed

subsection \<open>Actions of participants who are not ALIVE\<close>

text \<open>
  C5. The claim is that night resolution takes its input from ALIVE participants only, so
  that a pending action of a participant who is ELIMINATED or SPECTATOR contributes nothing
  to the protected set, the eliminations or the events. The code does not do this:
  neither \<open>processNightActions\<close> nor the NIGHT case of the advance reads the status of an
  actor. In the night below the ELIMINATED Mafia player \<open>p1\<close> still holds a KILL on
  \<open>p2\<close>. The action route itself refuses \<open>p1\<close> as an actor, yet the pending action
  yields an elimination event, which the list restricted to ALIVE participants does not
  yield, and the advance eliminates \<open>p2\<close>.
\<close>

theorem night_dead_actor_kills:
  "status (deadKillerPlayers ! 0) = ELIMINATED
   \<and> processNightActions deadKillerPlayers = [''A villager was found eliminated at dawn.'']
   \<and> processNightActions (filter (\<lambda>p. status p = ALIVE) deadKillerPlayers) = []
   \<and> takeAction deadKillerStore ''g1'' ''p1'' ''KILL'' (Some ''p2'')
       = (Inl (HttpError 400 ''Player cannot take action''), deadKillerStore)
   \<and> map_option status (getPlayer deadKillerStore ''p2'') = Some ALIVE
   \<and> map_option status
        (getPlayer (snd (nextPhase (quietEnv 2000) deadKillerStore ''g1'')) ''p2'')
       = Some ELIMINATED"
proof -
  have dead: "status (deadKillerPlayers ! 0) = ELIMINATED"
    by (simp add: deadKillerPlayers_def newPlayer_def)
  have acts: "actionsOf deadKillerPlayers = [deadKillerPlayers ! 0]"
    by (simp add: actionsOf_def deadKillerPlayers_def newPlayer_def)
  have k: "role (deadKillerPlayers ! 0) = Some MAFIA"
    "lastAction (deadKillerPlayers ! 0) = Some ''KILL''"
    "actionTarget (deadKillerPlayers ! 0) = Some ''p2''"
    by (simp_all add: deadKillerPlayers_def newPlayer_def)
  have ev: "processNightActions deadKillerPlayers = [''A villager was found eliminated at dawn.'']"
    by (simp add: processNightActions_def acts doctorPass_def mafiaPass_def detectivePass_def
        mafiaStep_def k)
  have ev': "processNightActions (filter (\<lambda>p. status p = ALIVE) deadKillerPlayers) = []"
    by (simp add: processNightActions_def actionsOf_def doctorPass_def mafiaPass_def
        detectivePass_def deadKillerPlayers_def newPlayer_def)
  have game: "getGame deadKillerStore ''g1'' = Some nightGame"
    by (simp add: getGame_def deadKillerStore_def nightGame_def newGame_def)
  have night: "currentPhase nightGame = NIGHT"
    by (simp add: nightGame_def)
  have ps: "getPlayersByGame deadKillerStore ''g1'' = deadKillerPlayers"
    by (simp add: getPlayersByGame_def deadKillerStore_def deadKillerPlayers_def newPlayer_def)
  have saves: "doctorSaves deadKillerPlayers = {}"
    by (simp add: doctorSaves_def deadKillerPlayers_def newPlayer_def)
  have mem: "deadKillerPlayers ! 0 \<in> set (mafiaActions deadKillerPlayers)"
    by (simp add: mafiaActions_def deadKillerPlayers_def newPlayer_def)
  have before: "getPlayer deadKillerStore ''p2'' = Some (deadKillerPlayers ! 1)"
    "status (deadKillerPlayers ! 1) = ALIVE"
    by (simp_all add: getPlayer_def deadKillerStore_def deadKillerPlayers_def newPlayer_def)
  have p1: "getPlayer deadKillerStore ''p1'' = Some (deadKillerPlayers ! 0)"
    by (simp add: getPlayer_def deadKillerStore_def deadKillerPlayers_def newPlayer_def)
  have refused: "takeAction deadKillerStore ''g1'' ''p1'' ''KILL'' (Some ''p2'')
                 = (Inl (HttpError 400 ''Player cannot take action''), deadKillerStore)"
    by (simp add: takeAction_def game night p1 dead)
  have "\<exists>m \<in> set (mafiaActions deadKillerPlayers). kills (doctorSaves deadKillerPlayers) ''p2'' m"
    using mem k by (auto simp: kills_def saves)
  from kills_some_eliminated [OF this, of "(deadKillerStore, lg)" "deadKillerPlayers ! 1"
      deadKillerPlayers for lg]
  have "map_option status
          (getPlayer (snd (nextPhase (quietEnv 2000) deadKillerStore ''g1'')) ''p2'')
        = Some ELIMINATED"
    by (simp add: nextPhase_NIGHT_status [OF game night] ps before)
  then show ?thesis using dead ev ev' refused before by simp
qed

section \<open>Advancing an ended session\<close>

text \<open>
  C2, as amended. For a session whose phase is ENDED, an advance-phase request is
  accepted: the response is the session with every field as before except that the
  countdown is 0, the last-modified timestamp is the time of the call, and an unset log
  is stored as the empty log. Phase, day counter, log entries and narrative do not
  change, and no participant row changes.
\<close>

theorem nextPhase_ENDED:
  assumes "getGame st gid = Some g" and "currentPhase g = ENDED"
  shows "fst (nextPhase e st gid)
           = Inr (Some (g\<lparr>gameLog := Some (case gameLog g of Some l \<Rightarrow> l | None \<Rightarrow> []),
                           timeRemaining := Some 0, updatedAt := now e\<rparr>))
       \<and> getGame (snd (nextPhase e st gid)) gid
           = Some (g\<lparr>gameLog := Some (case gameLog g of Some l \<Rightarrow> l | None \<Rightarrow> []),
                      timeRemaining := Some 0, updatedAt := now e\<rparr>)
       \<and> players (snd (nextPhase e st gid)) = players st"
  using assms
  by (simp add: nextPhase_def Let_def getGame_updateGame players_updateGame split: option.splits)

theorem nextPhase_ENDED_witness:
  "getGame endedStore ''g1'' = Some endedGame \<and> currentPhase endedGame = ENDED
   \<and> fst (nextPhase (quietEnv 2000) endedStore ''g1'')
       = Inr (Some (endedGame\<lparr>updatedAt := 2000\<rparr>))
   \<and> getGame (snd (nextPhase (quietEnv 2000) endedStore ''g1'')) ''g1''
       = Some (endedGame\<lparr>updatedAt := 2000\<rparr>)
   \<and> players (snd (nextPhase (quietEnv 2000) endedStore ''g1'')) = fourPlayers"
proof -
  have g: "getGame endedStore ''g1'' = Some endedGame"
    by (simp add: getGame_def endedStore_def endedGame_def newGame_def)
  have p: "currentPhase endedGame = ENDED"
    by (simp add: endedGame_def)
  have v: "endedGame\<lparr>gameLog := Some (case gameLog endedGame of Some l \<Rightarrow> l | None \<Rightarrow> []),
                     timeRemaining := Some 0, updatedAt := now (quietEnv 2000)\<rparr>
           = endedGame\<lparr>updatedAt := 2000\<rparr>"
    by (simp add: endedGame_def newGame_def quietEnv_def)
  show ?thesis
    using g p nextPhase_ENDED [OF g p, of "quietEnv 2000"]
    by (simp add: v) (simp add: endedStore_def)
qed

text \<open>
  The claim as stated fails: on the session ended at time 1000, an advance at time 2000
  is answered with the session, not with an error, and the stored state differs from the
  one before the call.
\<close>

theorem nextPhase_ENDED_counterexample:
  "getGame endedStore ''g1'' = Some endedGame \<and> currentPhase endedGame = ENDED
   \<and> fst (nextPhase (quietEnv 2000) endedStore ''g1'')
       = Inr (Some (endedGame\<lparr>updatedAt := 2000\<rparr>))
   \<and> snd (nextPhase (quietEnv 2000) endedStore ''g1'') \<noteq> endedStore"
  by (simp add: nextPhase_def Let_def getGame_def updateGame_def endedStore_def endedGame_def
      newGame_def quietEnv_def)

section \<open>Starting a session\<close>

text \<open>
  C6. The claim is that the start operation succeeds only from the LOBBY phase (with at
  least 4 participants, all ready), and that on success the phase is DAY and the day
  counter equals 1. The code does not do this: the route checks the participant count and
  the readiness flags but never the phase, and it never writes the day counter, although
  it treats the call as a fresh start (it asks for the narrative of day 1 and replaces the
  log by "Game started ..."). A session in its third NIGHT with four ready participants
  is started again: the request succeeds, the phase becomes DAY and the day counter
  stays 3.
\<close>

theorem startGame_accepts_running_session:
  "getGame readyNightStore ''g1'' = Some nightGame
   \<and> currentPhase nightGame = NIGHT
   \<and> \<not> isl (fst (startGame (quietEnv 2000) readyNightStore ''g1''))
   \<and> map_option currentPhase (getGame (snd (startGame (quietEnv 2000) readyNightStore ''g1'')) ''g1'')
       = Some DAY
   \<and> map_option dayNumber (getGame (snd (startGame (quietEnv 2000) readyNightStore ''g1'')) ''g1'')
       = Some 3"
proof -
  have g: "getGame readyNightStore ''g1'' = Some nightGame"
    by (simp add: getGame_def readyNightStore_def nightGame_def newGame_def)
  have n: "length (getPlayersByGame readyNightStore ''g1'') = 4"
    by (simp add: getPlayersByGame_def readyNightStore_def fourPlayers_def newPlayer_def)
  have r: "list_all isReady (getPlayersByGame readyNightStore ''g1'')"
    by (simp add: getPlayersByGame_def readyNightStore_def fourPlayers_def newPlayer_def)
  show ?thesis
    using g n r
    by (simp add: startGame_def Let_def getGame_updateGame getGame_foldl_updatePlayer
        nightGame_def newGame_def)
qed

section \<open>Vote counters\<close>

lemma getPlayer_votes: "votesNonneg st \<Longrightarrow> getPlayer st x = Some p \<Longrightarrow> 0 \<le> votes p"
  unfolding votesNonneg_def getPlayer_def list_all_iff
  by (metis find_Some_iff nth_mem)

lemma votesNonneg_updatePlayer:
  "votesNonneg st \<Longrightarrow> (\<And>p. 0 \<le> votes p \<Longrightarrow> 0 \<le> votes (upd p)) \<Longrightarrow>
   votesNonneg (updatePlayer st x upd)"
  by (auto simp: votesNonneg_def updatePlayer_def list_all_iff)

lemma removePreviousVote_votesNonneg:
  "votesNonneg st \<Longrightarrow> votesNonneg (removePreviousVote st voter)"
  unfolding removePreviousVote_def
  by (auto split: option.splits intro!: votesNonneg_updatePlayer)

lemma incrementVoteCount_votesNonneg:
  assumes "votesNonneg st"
  shows "votesNonneg (incrementVoteCount st targetId)"
  unfolding incrementVoteCount_def
  using assms getPlayer_votes [OF assms]
  by (auto split: option.splits intro!: votesNonneg_updatePlayer)

lemma castVote_votesNonneg:
  assumes "votesNonneg st"
  shows "votesNonneg (snd (castVote st gid pid targetId))"
proof -
  have "votesNonneg
          (incrementVoteCount
             (updatePlayer (removePreviousVote st voter) pid (\<lambda>p. p\<lparr>votedFor := targetId\<rparr>))
             targetId)" for voter
    by (intro incrementVoteCount_votesNonneg votesNonneg_updatePlayer
          removePreviousVote_votesNonneg assms) simp
  then show ?thesis
    using assms by (simp add: castVote_def Let_def split: option.splits)
qed

text \<open>
  C10. Casting or changing a vote never drives a vote counter below zero: starting from a
  store in which every counter is at least 0, after any sequence of cast-vote requests
  (accepted or rejected) every participant's counter is at least 0. The decrement of the
  previous target is \<open>max 0 (votes - 1)\<close>.
\<close>

theorem castVotes_votesNonneg:
  "votesNonneg st \<Longrightarrow> votesNonneg (castVotes st reqs)"
  by (induction st reqs rule: castVotes.induct) (simp_all add: castVote_votesNonneg)

theorem castVotes_votesNonneg_witness:
  "votesNonneg votingStore
   \<and> votesNonneg (castVotes votingStore [(''g1'', ''p1'', Some ''p4''), (''g1'', ''p2'', None)])"
proof -
  have h: "votesNonneg votingStore"
    by (simp add: votesNonneg_def votingStore_def tiedVotes_def newPlayer_def)
  show ?thesis
    using h castVotes_votesNonneg [OF h, of "[(''g1'', ''p1'', Some ''p4''), (''g1'', ''p2'', None)]"]
    by simp
qed

end
